theory Spec2Isabelle
  imports Main
begin

section \<open>JavaScript values, objects and the worker's global scope\<close>

text \<open>
  The repository is one worker bootstrap script in two configurations:
  \<^verbatim>\<open>src/host/worker.js\<close>, which patches the received canvas's \<^verbatim>\<open>getContext\<close>, and
  \<^verbatim>\<open>src/unnamed/part_000\<close>, which does not. Both are embedded below, statement by
  statement, as functions on an explicit worker state.

  Objects live in a store addressed by references, so that two uses of one object
  (the caller's attributes object and the array slot \<^verbatim>\<open>args[1]\<close>) are the same address.
  Function values are the three kinds of function the script can see at the canvas's
  \<^verbatim>\<open>getContext\<close>: the platform's own operation, a \<^verbatim>\<open>.bind(obj)\<close> of a function, and
  the arrow function of \<^verbatim>\<open>worker.js\<close> lines 23-38 closing over \<^verbatim>\<open>ORIGINAL_GET_CONTEXT\<close>.
\<close>

type_synonym addr = nat

datatype fn =
    NativeGetContext
  | BoundFn fn addr
  | GetContextOverride fn

text \<open>
  Numbers carry no arithmetic in this program; they are opaque payloads. Symbols are
  told apart by a number.
\<close>

datatype jsval =
    JUndefined
  | JNull
  | JBool bool
  | JNum int
  | JStr string
  | JSymbol nat
  | JObj addr
  | JFun fn

text \<open>
  What an assignment \<^verbatim>\<open>o.k = v\<close> does to an object, key by key. The scripts are classic
  worker scripts without \<^verbatim>\<open>"use strict"\<close>, so an assignment that the object does not take
  is dropped silently.
  \<^item> \<open>Stores\<close>: the value is stored: \<open>k\<close> is a writable data property, or is absent from
    an extensible object.
  \<^item> \<open>Ignores\<close>: nothing changes: the object is frozen, sealed or not extensible and
    lacks \<open>k\<close>, or \<open>k\<close> is not writable, or \<open>k\<close> is an accessor without a setter.
  \<^item> \<open>Raises\<close>: a setter or a proxy trap of the object throws.
\<close>

datatype put = Stores | Ignores | Raises

text \<open>
  An object has its own data properties, its reaction to assignments and, when it is
  an instance of \<^verbatim>\<open>OffscreenCanvas\<close>, the function currently reachable as its
  \<^verbatim>\<open>getContext\<close> method (\<open>None\<close> for every object that is not an \<^verbatim>\<open>OffscreenCanvas\<close>).
\<close>

record jsobj =
  props :: "string \<rightharpoonup> jsval"
  getContext :: "fn option"
  on_put :: "string \<Rightarrow> put"

type_synonym store = "addr \<rightharpoonup> jsobj"

datatype level = Log | Debug | Warn | Error

text \<open>A console report: its level, its message text and the values logged with it.\<close>

type_synonym report = "level \<times> string \<times> jsval list"

text \<open>The calls that \<^verbatim>\<open>init\<close> makes into the host and into the external module.\<close>

datatype ext_call =
    ImportScripts string
  | Wasm_bindgen string

text \<open>The two scripts; a registered \<^verbatim>\<open>self.onmessage\<close> is the handler of one of them.\<close>

datatype script = Worker_js | Part_000

record worker =
  RUST_OFFSCREEN_CANVAS :: jsval
  onmessage :: "script option"
  heap :: store
  next_addr :: addr
  console :: "report list"
  calls :: "ext_call list"
  uncaught :: "string list"

text \<open>
  How a piece of code completes: it returns, or it raises in the state it has reached.
\<close>

datatype 'r completion =
    Raised string worker
  | Returned 'r

section \<open>Primitive operations of the language\<close>

fun typeof :: "jsval \<Rightarrow> string" where
  "typeof JUndefined = ''undefined''"
| "typeof JNull = ''object''"
| "typeof (JBool b) = ''boolean''"
| "typeof (JNum n) = ''number''"
| "typeof (JStr s) = ''string''"
| "typeof (JSymbol n) = ''symbol''"
| "typeof (JObj a) = ''object''"
| "typeof (JFun f) = ''function''"

text \<open>
  Property read \<^verbatim>\<open>v.k\<close>. On \<^verbatim>\<open>undefined\<close> and \<^verbatim>\<open>null\<close> JavaScript raises a TypeError; every
  read in the scripts is guarded by a preceding object check, so that case is not
  reached and is given the value \<^verbatim>\<open>undefined\<close> here.
\<close>

definition member :: "store \<Rightarrow> jsval \<Rightarrow> string \<Rightarrow> jsval" where
  "member h v k =
     (case v of
        JObj a \<Rightarrow>
          (case h a of
             None \<Rightarrow> JUndefined
           | Some ob \<Rightarrow>
               (case (if k = ''getContext'' then getContext ob else None) of
                  Some f \<Rightarrow> JFun f
                | None \<Rightarrow> (case props ob k of None \<Rightarrow> JUndefined | Some x \<Rightarrow> x)))
      | _ \<Rightarrow> JUndefined)"

text \<open>\<^verbatim>\<open>v instanceof OffscreenCanvas\<close>.\<close>

definition instanceof_OffscreenCanvas :: "store \<Rightarrow> jsval \<Rightarrow> bool" where
  "instanceof_OffscreenCanvas h v =
     (case v of
        JObj a \<Rightarrow> (case h a of None \<Rightarrow> False | Some ob \<Rightarrow> getContext ob \<noteq> None)
      | _ \<Rightarrow> False)"

text \<open>
  \<^verbatim>\<open>v.k.bind(v)\<close>: \<open>None\<close> when \<^verbatim>\<open>v.k\<close> is not a function, where JavaScript raises a
  TypeError.
\<close>

definition bound_method :: "store \<Rightarrow> jsval \<Rightarrow> string \<Rightarrow> fn option" where
  "bound_method h v k =
     (case v of
        JObj a \<Rightarrow> (case member h v k of JFun f \<Rightarrow> Some (BoundFn f a) | _ \<Rightarrow> None)
      | _ \<Rightarrow> None)"

text \<open>
  \<^verbatim>\<open>v.getContext = f\<close> on the canvas just received: the method is replaced on that very
  object. The canvas reaches the worker by transfer, as a new platform object on
  which no code has run, so it takes the assignment.
\<close>

definition assign_getContext :: "jsval \<Rightarrow> fn \<Rightarrow> worker \<Rightarrow> worker" where
  "assign_getContext v f w =
     (case v of
        JObj a \<Rightarrow>
          (case heap w a of
             None \<Rightarrow> w
           | Some ob \<Rightarrow> w\<lparr>heap := (heap w)(a \<mapsto> ob\<lparr>getContext := Some f\<rparr>)\<rparr>)
      | _ \<Rightarrow> w)"

text \<open>
  \<^verbatim>\<open>v.k = x\<close> on a caller's object, outside strict mode. When the object stores the
  value, the object at \<open>v\<close>'s address is updated in place and every other property and
  every other object stay as they are; when it ignores the assignment nothing
  changes and the statement completes all the same; when it raises, the statement
  raises. (On a primitive other than \<^verbatim>\<open>undefined\<close> and \<^verbatim>\<open>null\<close> the assignment is dropped
  as well; the script assigns only after its object check.)
\<close>

definition assign :: "jsval \<Rightarrow> string \<Rightarrow> jsval \<Rightarrow> worker \<Rightarrow> worker completion" where
  "assign v k x w =
     (case v of
        JObj a \<Rightarrow>
          (case heap w a of
             None \<Rightarrow> Returned w
           | Some ob \<Rightarrow>
               (case on_put ob k of
                  Stores \<Rightarrow>
                    Returned (w\<lparr>heap := (heap w)(a \<mapsto> ob\<lparr>props := (props ob)(k \<mapsto> x)\<rparr>)\<rparr>)
                | Ignores \<Rightarrow> Returned w
                | Raises \<Rightarrow> Raised ''exception of the setter'' w))
      | _ \<Rightarrow> Returned w)"

text \<open>
  The object literal \<^verbatim>\<open>{}\<close>: a new, extensible object without properties at the next
  unused address.
\<close>

definition new_object :: "worker \<Rightarrow> addr \<times> worker" where
  "new_object w =
     (next_addr w,
      w\<lparr>heap := (heap w)(next_addr w \<mapsto> \<lparr>props = Map.empty, getContext = None, on_put = (\<lambda>k. Stores)\<rparr>),
        next_addr := Suc (next_addr w)\<rparr>)"

text \<open>\<^verbatim>\<open>args[i]\<close>: \<^verbatim>\<open>undefined\<close> beyond the end of the array.\<close>

definition arg_at :: "jsval list \<Rightarrow> nat \<Rightarrow> jsval" where
  "arg_at args i = (if i < length args then args ! i else JUndefined)"

text \<open>\<^verbatim>\<open>args[i] = v\<close>: a write beyond the end extends the array.\<close>

definition array_set :: "jsval list \<Rightarrow> nat \<Rightarrow> jsval \<Rightarrow> jsval list" where
  "array_set args i v =
     (if i < length args then args[i := v]
      else args @ replicate (i - length args) JUndefined @ [v])"

text \<open>
  The string that a template literal makes of a value (the language's ToString).
  For a string, \<^verbatim>\<open>undefined\<close>, \<^verbatim>\<open>null\<close> and the booleans it is fixed, and on a symbol it
  raises a TypeError. For an object or a function it runs what the value carries
  (\<^verbatim>\<open>toString\<close>, \<^verbatim>\<open>valueOf\<close>, \<^verbatim>\<open>Symbol.toPrimitive\<close>, proxy traps): code of the caller,
  which can change the state and can raise; \<^verbatim>\<open>{ toString: 1 }\<close> raises a TypeError.
  That conversion, and the formatting of numbers, is the parameter \<open>conv\<close>.
\<close>

definition to_string ::
  "(jsval \<Rightarrow> worker \<Rightarrow> (string \<times> worker) completion)
     \<Rightarrow> jsval \<Rightarrow> worker \<Rightarrow> (string \<times> worker) completion" where
  "to_string conv v w =
     (case v of
        JUndefined \<Rightarrow> Returned (''undefined'', w)
      | JNull \<Rightarrow> Returned (''null'', w)
      | JBool b \<Rightarrow> Returned (if b then ''true'' else ''false'', w)
      | JStr s \<Rightarrow> Returned (s, w)
      | JSymbol n \<Rightarrow> Raised ''TypeError'' w
      | _ \<Rightarrow> conv v w)"

definition console_report :: "level \<Rightarrow> string \<Rightarrow> jsval list \<Rightarrow> worker \<Rightarrow> worker" where
  "console_report l msg vs w = w\<lparr>console := console w @ [(l, msg, vs)]\<rparr>"

section \<open>The message texts of the scripts\<close>

definition msg_already_initialized :: string where
  "msg_already_initialized =
     ''Worker received a message, but OffscreenCanvas is already initialized.''"

definition msg_received :: string where
  "msg_received =
     ''Worker successfully received OffscreenCanvas from '' @ [CHR 0x27] @ ''CANVAS''
       @ [CHR 0x27] @ '' command.''"

definition msg_listener_removed :: string where
  "msg_listener_removed = ''Message listener removed. Canvas is ready for use.''"

definition msg_invalid_payload :: string where
  "msg_invalid_payload =
     ''Worker received an invalid message payload. Expected { type: '' @ [CHR 0x27]
       @ ''CANVAS'' @ [CHR 0x27] @ '', canvas: OffscreenCanvas }''"

definition msg_loaded :: string where
  "msg_loaded = ''Web Worker script loaded. Waiting for OffscreenCanvas message...''"

definition msg_modified :: string where
  "msg_modified = ''Modified webgl2 context attributes to include desynchronized: true''"

definition msg_context_type :: string where
  "msg_context_type = ''getContext called with context type: ''"

section \<open>The bootstrap step and the context-acquisition override\<close>

text \<open>
  \<^verbatim>\<open>init\<close> (\<^verbatim>\<open>worker.js\<close> lines 55-58, the same in \<^verbatim>\<open>part_000\<close>): the two calls are
  recorded in the order the function issues them. What the loaded script and the
  module do is outside this repository.
\<close>

definition init :: "worker \<Rightarrow> worker" where
  "init w =
     w\<lparr>calls := calls w @ [ImportScripts ''./app/rose-sample-rs.js'',
                             Wasm_bindgen ''./app/rose-sample-rs_bg.wasm'']\<rparr>"

text \<open>
  The arrow function of \<^verbatim>\<open>worker.js\<close> lines 23-38. \<open>ORIGINAL_GET_CONTEXT\<close> is the
  captured original operation; it receives the argument array and the state the
  override leaves, and what it returns is what the override returns. The override
  does not reach that call when the assignment of line 31 raises, or when the
  template literal of line 34 raises while converting \<^verbatim>\<open>args[0]\<close> to a string.
\<close>

definition getContext_override ::
  "(jsval \<Rightarrow> worker \<Rightarrow> (string \<times> worker) completion)
     \<Rightarrow> (jsval list \<Rightarrow> worker \<Rightarrow> 'r completion)
     \<Rightarrow> jsval list \<Rightarrow> worker \<Rightarrow> 'r completion" where
  "getContext_override conv ORIGINAL_GET_CONTEXT args w =
     (let w1 = console_report Log ''get_context'' args w in
      if arg_at args 0 = JStr ''webgl2'' then
        (let (args1, w2) =
               (if length args < 2 \<or> typeof (arg_at args 1) \<noteq> ''object''
                   \<or> arg_at args 1 = JNull
                then (let (a, w') = new_object w1 in (array_set args 1 (JObj a), w'))
                else (args, w1))
         in case assign (arg_at args1 1) ''desynchronized'' (JBool True) w2 of
              Raised e w3 \<Rightarrow> Raised e w3
            | Returned w3 \<Rightarrow>
                (let w4 = console_report Debug msg_modified [arg_at args1 1] w3
                 in ORIGINAL_GET_CONTEXT args1 w4))
      else
        (case to_string conv (arg_at args 0) w1 of
           Raised e w2 \<Rightarrow> Raised e w2
         | Returned (s, w2) \<Rightarrow>
             (let w3 = console_report Debug (msg_context_type @ s) [] w2
              in ORIGINAL_GET_CONTEXT args w3)))"

text \<open>
  Calling a function value. \<open>native\<close> is the platform's context acquisition, a
  parameter: it is given its receiver, the arguments and the state.
\<close>

primrec call_fn ::
  "(jsval \<Rightarrow> worker \<Rightarrow> (string \<times> worker) completion)
     \<Rightarrow> (jsval \<Rightarrow> jsval list \<Rightarrow> worker \<Rightarrow> (jsval \<times> worker) completion) \<Rightarrow> fn
     \<Rightarrow> jsval \<Rightarrow> jsval list \<Rightarrow> worker \<Rightarrow> (jsval \<times> worker) completion" where
  "call_fn conv native NativeGetContext = (\<lambda>this args w. native this args w)"
| "call_fn conv native (BoundFn f a) = (\<lambda>this args w. call_fn conv native f (JObj a) args w)"
| "call_fn conv native (GetContextOverride orig) =
     (\<lambda>this args w. getContext_override conv (call_fn conv native orig JUndefined) args w)"

section \<open>The message handlers\<close>

text \<open>The condition of line 18, the same in both scripts.\<close>

definition shape_ok :: "store \<Rightarrow> jsval \<Rightarrow> bool" where
  "shape_ok h data =
     (typeof data = ''object'' \<and> data \<noteq> JNull
      \<and> member h data ''type'' = JStr ''CANVAS''
      \<and> instanceof_OffscreenCanvas h (member h data ''canvas''))"

text \<open>\<^verbatim>\<open>self.onmessage\<close> of \<^verbatim>\<open>src/host/worker.js\<close>, lines 7-51; \<open>data\<close> is \<^verbatim>\<open>event.data\<close>.\<close>

definition onmessage_worker_js :: "worker \<Rightarrow> jsval \<Rightarrow> worker" where
  "onmessage_worker_js w data =
     (if RUST_OFFSCREEN_CANVAS w \<noteq> JNull then
        console_report Warn msg_already_initialized [] w
      else if shape_ok (heap w) data then
        (let w1 = w\<lparr>RUST_OFFSCREEN_CANVAS := member (heap w) data ''canvas''\<rparr> in
         case bound_method (heap w1) (RUST_OFFSCREEN_CANVAS w1) ''getContext'' of
           None \<Rightarrow> w1\<lparr>uncaught := uncaught w1 @ [''TypeError'']\<rparr>
         | Some ORIGINAL_GET_CONTEXT \<Rightarrow>
             (let w2 = assign_getContext (RUST_OFFSCREEN_CANVAS w1)
                         (GetContextOverride ORIGINAL_GET_CONTEXT) w1;
                  w3 = console_report Debug msg_received [RUST_OFFSCREEN_CANVAS w2] w2;
                  w4 = w3\<lparr>onmessage := None\<rparr>;
                  w5 = console_report Debug msg_listener_removed [] w4
              in init w5))
      else
        console_report Error msg_invalid_payload [data] w)"

text \<open>\<^verbatim>\<open>self.onmessage\<close> of \<^verbatim>\<open>src/unnamed/part_000\<close>, lines 7-31.\<close>

definition onmessage_part_000 :: "worker \<Rightarrow> jsval \<Rightarrow> worker" where
  "onmessage_part_000 w data =
     (if RUST_OFFSCREEN_CANVAS w \<noteq> JNull then
        console_report Warn msg_already_initialized [] w
      else if shape_ok (heap w) data then
        (let w1 = w\<lparr>RUST_OFFSCREEN_CANVAS := member (heap w) data ''canvas''\<rparr>;
             w2 = console_report Debug msg_received [RUST_OFFSCREEN_CANVAS w1] w1;
             w3 = w2\<lparr>onmessage := None\<rparr>;
             w4 = console_report Debug msg_listener_removed [] w3
         in init w4)
      else
        console_report Error msg_invalid_payload [data] w)"

fun handler :: "script \<Rightarrow> worker \<Rightarrow> jsval \<Rightarrow> worker" where
  "handler Worker_js = onmessage_worker_js"
| "handler Part_000 = onmessage_part_000"

text \<open>
  The top level of either script (lines 4, 7 and the final \<^verbatim>\<open>console.debug\<close>), run in
  a worker whose store is \<open>h\<close> and whose next unused address is \<open>n\<close>.
\<close>

definition load :: "script \<Rightarrow> store \<Rightarrow> addr \<Rightarrow> worker" where
  "load s h n =
     \<lparr>RUST_OFFSCREEN_CANVAS = JNull, onmessage = Some s, heap = h, next_addr = n,
      console = [(Debug, msg_loaded, [])], calls = [], uncaught = []\<rparr>"

text \<open>
  The host delivers a message event: the registered \<^verbatim>\<open>self.onmessage\<close> runs on its
  data; with \<^verbatim>\<open>self.onmessage\<close> set to \<^verbatim>\<open>null\<close> no code of the script runs.
\<close>

definition deliver :: "worker \<Rightarrow> jsval \<Rightarrow> worker" where
  "deliver w data = (case onmessage w of None \<Rightarrow> w | Some s \<Rightarrow> handler s w data)"

fun run :: "worker \<Rightarrow> jsval list \<Rightarrow> worker" where
  "run w [] = w"
| "run w (m # ms) = run (deliver w m) ms"

text \<open>
  A later call \<^verbatim>\<open>self.RUST_OFFSCREEN_CANVAS.getContext(...args)\<close> by the module.
\<close>

definition invoke_getContext ::
  "(jsval \<Rightarrow> worker \<Rightarrow> (string \<times> worker) completion)
     \<Rightarrow> (jsval \<Rightarrow> jsval list \<Rightarrow> worker \<Rightarrow> (jsval \<times> worker) completion)
     \<Rightarrow> jsval list \<Rightarrow> worker \<Rightarrow> (jsval \<times> worker) completion option" where
  "invoke_getContext conv native args w =
     (case member (heap w) (RUST_OFFSCREEN_CANVAS w) ''getContext'' of
        JFun f \<Rightarrow> Some (call_fn conv native f (RUST_OFFSCREEN_CANVAS w) args w)
      | _ \<Rightarrow> None)"

section \<open>The vocabulary of the specification\<close>

text \<open>
  An Initialization Message, in the specification's words: a non-absent object whose
  \<open>type\<close> field is the literal \<open>CANVAS\<close> and whose \<open>canvas\<close> field is an instance of
  the transferable drawable-surface type.
\<close>

definition initialization_message :: "store \<Rightarrow> jsval \<Rightarrow> bool" where
  "initialization_message h data =
     (case data of
        JObj a \<Rightarrow>
          (case h a of
             None \<Rightarrow> False
           | Some ob \<Rightarrow>
               props ob ''type'' = Some (JStr ''CANVAS'')
               \<and> (case props ob ''canvas'' of
                    Some (JObj c) \<Rightarrow>
                      (case h c of None \<Rightarrow> False | Some cob \<Rightarrow> getContext cob \<noteq> None)
                  | _ \<Rightarrow> False))
      | _ \<Rightarrow> False)"




text \<open>
  The store in which the surface \<open>v\<close> carries the Context-Acquisition Override: its
  \<^verbatim>\<open>getContext\<close> is the override closing over the previous method bound to the
  surface, and nothing else differs from \<open>h\<close>.
\<close>

definition with_override :: "store \<Rightarrow> jsval \<Rightarrow> store" where
  "with_override h v =
     (case v of
        JObj c \<Rightarrow>
          (case h c of
             None \<Rightarrow> h
           | Some cob \<Rightarrow>
               (case getContext cob of
                  None \<Rightarrow> h
                | Some f \<Rightarrow>
                    h(c \<mapsto> cob\<lparr>getContext := Some (GetContextOverride (BoundFn f c))\<rparr>)))
      | _ \<Rightarrow> h)"

text \<open>The reports of one level that a worker has on its console.\<close>

definition reports_at :: "level \<Rightarrow> worker \<Rightarrow> report list" where
  "reports_at l w = filter (\<lambda>r. fst r = l) (console w)"

text \<open>The error-level report of line 49 for each message of a list.\<close>

definition error_reports :: "jsval list \<Rightarrow> report list" where
  "error_reports ms = map (\<lambda>d. (Error, msg_invalid_payload, [d])) ms"

text \<open>The two calls of \<^verbatim>\<open>init\<close>, with the fixed paths of the source.\<close>

definition bootstrap_calls :: "ext_call list" where
  "bootstrap_calls =
     [ImportScripts ''./app/rose-sample-rs.js'', Wasm_bindgen ''./app/rose-sample-rs_bg.wasm'']"

section \<open>A concrete worker\<close>

text \<open>
  A store with the message \<^verbatim>\<open>{ type: "CANVAS", canvas: <canvas at 1> }\<close> at address 0,
  an \<^verbatim>\<open>OffscreenCanvas\<close> at address 1, the attributes \<^verbatim>\<open>{ antialias: false,
  desynchronized: false }\<close> at address 2 and the message \<^verbatim>\<open>{ type: "PING" }\<close> at
  address 3; all of them ordinary, extensible objects.
\<close>

definition demo_store :: store where
  "demo_store =
     [0 \<mapsto> \<lparr>props = [''type'' \<mapsto> JStr ''CANVAS'', ''canvas'' \<mapsto> JObj 1], getContext = None,
             on_put = (\<lambda>k. Stores)\<rparr>,
      1 \<mapsto> \<lparr>props = Map.empty, getContext = Some NativeGetContext, on_put = (\<lambda>k. Stores)\<rparr>,
      2 \<mapsto> \<lparr>props = [''antialias'' \<mapsto> JBool False, ''desynchronized'' \<mapsto> JBool False],
             getContext = None, on_put = (\<lambda>k. Stores)\<rparr>,
      3 \<mapsto> \<lparr>props = [''type'' \<mapsto> JStr ''PING''], getContext = None, on_put = (\<lambda>k. Stores)\<rparr>]"


text \<open>
  The conversion to a string of the objects of these stores: an object without a
  \<^verbatim>\<open>toString\<close> of its own inherits the one of \<^verbatim>\<open>Object.prototype\<close>; the \<^verbatim>\<open>toString\<close> of
  \<^verbatim>\<open>{ toString: 1 }\<close> is not callable and the \<^verbatim>\<open>valueOf\<close> it inherits returns the object,
  so its conversion raises a TypeError.
\<close>

definition demo_conv :: "jsval \<Rightarrow> worker \<Rightarrow> (string \<times> worker) completion" where
  "demo_conv v w =
     (if member (heap w) v ''toString'' = JUndefined
      then Returned (''[object Object]'', w)
      else Raised ''TypeError'' w)"

text \<open>A stand-in for the platform's context acquisition: it returns its receiver.\<close>

definition demo_native ::
  "jsval \<Rightarrow> jsval list \<Rightarrow> worker \<Rightarrow> (jsval \<times> worker) completion" where
  "demo_native this args w = Returned (this, w)"

section \<open>How the handlers behave, branch by branch\<close>

text \<open>
  The condition of line 18, as the source evaluates it, accepts exactly the
  Initialization Messages of the specification.
\<close>

lemma shape_ok_iff: "shape_ok h data = initialization_message h data"
  by (auto simp: shape_ok_def initialization_message_def member_def
        instanceof_OffscreenCanvas_def split: jsval.splits option.splits)

lemma initialization_message_canvas:
  "initialization_message h data \<Longrightarrow>
     \<exists>c cob f. member h data ''canvas'' = JObj c \<and> h c = Some cob \<and> getContext cob = Some f"
  unfolding initialization_message_def member_def
  by (simp split: jsval.split_asm option.split_asm)

lemma handler_when_bound:
  "RUST_OFFSCREEN_CANVAS w \<noteq> JNull \<Longrightarrow>
     handler s w data = console_report Warn msg_already_initialized [] w"
  by (cases s) (simp_all add: onmessage_worker_js_def onmessage_part_000_def)

lemma handler_when_malformed:
  "RUST_OFFSCREEN_CANVAS w = JNull \<Longrightarrow> \<not> initialization_message (heap w) data \<Longrightarrow>
     handler s w data = console_report Error msg_invalid_payload [data] w"
  by (cases s) (simp_all add: onmessage_worker_js_def onmessage_part_000_def shape_ok_iff)

lemma worker_js_when_valid:
  assumes "RUST_OFFSCREEN_CANVAS w = JNull" and "initialization_message (heap w) data"
  shows "onmessage_worker_js w data =
     w\<lparr>RUST_OFFSCREEN_CANVAS := member (heap w) data ''canvas'', onmessage := None,
       heap := with_override (heap w) (member (heap w) data ''canvas''),
       console := console w @ [(Debug, msg_received, [member (heap w) data ''canvas'']),
                               (Debug, msg_listener_removed, [])],
       calls := calls w @ bootstrap_calls\<rparr>"
proof -
  from initialization_message_canvas [OF assms(2)]
  obtain c cob f where c: "member (heap w) data ''canvas'' = JObj c"
    "heap w c = Some cob" "getContext cob = Some f" by blast
  have "member (heap w) (JObj c) ''getContext'' = JFun f"
    using c by (simp add: member_def)
  then show ?thesis
    using assms c
    by (simp add: onmessage_worker_js_def shape_ok_iff bound_method_def with_override_def
        assign_getContext_def console_report_def init_def Let_def bootstrap_calls_def)
qed

lemma part_000_when_valid:
  assumes "RUST_OFFSCREEN_CANVAS w = JNull" and "initialization_message (heap w) data"
  shows "onmessage_part_000 w data =
     w\<lparr>RUST_OFFSCREEN_CANVAS := member (heap w) data ''canvas'', onmessage := None,
       console := console w @ [(Debug, msg_received, [member (heap w) data ''canvas'']),
                               (Debug, msg_listener_removed, [])],
       calls := calls w @ bootstrap_calls\<rparr>"
  using assms
  by (simp add: onmessage_part_000_def shape_ok_iff console_report_def init_def Let_def
      bootstrap_calls_def)

lemma canvas_not_null:
  "initialization_message h data \<Longrightarrow> member h data ''canvas'' \<noteq> JNull"
  using initialization_message_canvas by fastforce

lemma handler_valid_surface:
  assumes "RUST_OFFSCREEN_CANVAS w = JNull" and "initialization_message (heap w) data"
  shows "RUST_OFFSCREEN_CANVAS (handler s w data) = member (heap w) data ''canvas''"
    and "onmessage (handler s w data) = None"
    and "calls (handler s w data) = calls w @ bootstrap_calls"
    and "console (handler s w data) = console w @ [(Debug, msg_received, [member (heap w) data ''canvas'']),
                               (Debug, msg_listener_removed, [])]"
  using assms by (cases s; simp add: worker_js_when_valid part_000_when_valid)+

lemma run_deregistered: "onmessage w = None \<Longrightarrow> run w ms = w"
  by (induction ms) (simp_all add: deliver_def)

lemma run_append: "run w (xs @ ys) = run (run w xs) ys"
  by (induction xs arbitrary: w) simp_all

section \<open>The handshake\<close>

text \<open>
  C1. For every well-formed Initialization Message (a non-null object with type
  \<open>CANVAS\<close> and an \<^verbatim>\<open>OffscreenCanvas\<close> canvas field) handled while the surface state is
  absent, in either script: afterwards the surface state is the supplied canvas, an
  \<^verbatim>\<open>OffscreenCanvas\<close>; the message handler is deregistered; and whatever messages are
  delivered afterwards, of any shape, the worker's state stays exactly as it is.
\<close>

theorem handshake_binds_and_deregisters:
  assumes "RUST_OFFSCREEN_CANVAS w = JNull"
    and "initialization_message (heap w) data"
  shows "RUST_OFFSCREEN_CANVAS (handler s w data) = member (heap w) data ''canvas''
       \<and> instanceof_OffscreenCanvas (heap w) (RUST_OFFSCREEN_CANVAS (handler s w data))
       \<and> onmessage (handler s w data) = None
       \<and> run (handler s w data) ms = handler s w data"
proof -
  have "instanceof_OffscreenCanvas (heap w) (member (heap w) data ''canvas'')"
    using assms(2) by (simp add: shape_ok_iff [symmetric] shape_ok_def)
  then show ?thesis
    using assms by (simp add: handler_valid_surface run_deregistered)
qed

theorem handshake_binds_and_deregisters_witness:
  "RUST_OFFSCREEN_CANVAS (load Worker_js demo_store 4) = JNull
   \<and> initialization_message (heap (load Worker_js demo_store 4)) (JObj 0)
   \<and> RUST_OFFSCREEN_CANVAS (handler Worker_js (load Worker_js demo_store 4) (JObj 0)) = JObj 1
   \<and> onmessage (handler Worker_js (load Worker_js demo_store 4) (JObj 0)) = None
   \<and> run (handler Worker_js (load Worker_js demo_store 4) (JObj 0)) [JObj 0, JStr ''PING'', JNull]
       = handler Worker_js (load Worker_js demo_store 4) (JObj 0)"
proof -
  have a: "RUST_OFFSCREEN_CANVAS (load Worker_js demo_store 4) = JNull"
    by (simp add: load_def)
  have b: "initialization_message (heap (load Worker_js demo_store 4)) (JObj 0)"
    by (simp add: load_def initialization_message_def demo_store_def)
  have c: "member (heap (load Worker_js demo_store 4)) (JObj 0) ''canvas'' = JObj 1"
    by (simp add: load_def member_def demo_store_def)
  show ?thesis
    using handshake_binds_and_deregisters [OF a b, of Worker_js "[JObj 0, JStr ''PING'', JNull]"] a b c
    by simp
qed


text \<open>
  C2. For every message value handled while the surface state is absent
  (AwaitingSurface), in either script: the surface becomes set (SurfaceBound) if and
  only if the message is an Initialization Message in the specification's sense, which
  is exactly what the condition of line 18 tests; the surface is then the message's
  canvas and the handler is deregistered. Every other value is rejected: the surface
  stays absent and the handler stays as it was.
\<close>

theorem transition_iff_initialization_message:
  assumes "RUST_OFFSCREEN_CANVAS w = JNull"
  shows "(RUST_OFFSCREEN_CANVAS (handler s w data) \<noteq> JNull) = initialization_message (heap w) data
     \<and> shape_ok (heap w) data = initialization_message (heap w) data
     \<and> RUST_OFFSCREEN_CANVAS (handler s w data)
         = (if initialization_message (heap w) data then member (heap w) data ''canvas'' else JNull)
     \<and> onmessage (handler s w data)
         = (if initialization_message (heap w) data then None else onmessage w)"
proof (cases "initialization_message (heap w) data")
  case True
  then show ?thesis
    using assms by (simp add: handler_valid_surface canvas_not_null shape_ok_iff)
next
  case False
  then show ?thesis
    using assms by (simp add: handler_when_malformed console_report_def shape_ok_iff)
qed

theorem transition_iff_initialization_message_witness:
  "RUST_OFFSCREEN_CANVAS (load Part_000 demo_store 4) = JNull
   \<and> initialization_message demo_store (JObj 0)
   \<and> RUST_OFFSCREEN_CANVAS (handler Part_000 (load Part_000 demo_store 4) (JObj 0)) = JObj 1
   \<and> \<not> initialization_message demo_store (JObj 3)
   \<and> RUST_OFFSCREEN_CANVAS (handler Part_000 (load Part_000 demo_store 4) (JObj 3)) = JNull
   \<and> onmessage (handler Part_000 (load Part_000 demo_store 4) (JObj 3)) = Some Part_000"
proof -
  have a: "RUST_OFFSCREEN_CANVAS (load Part_000 demo_store 4) = JNull"
    by (simp add: load_def)
  have h: "heap (load Part_000 demo_store 4) = demo_store"
    and o: "onmessage (load Part_000 demo_store 4) = Some Part_000"
    by (simp_all add: load_def)
  have b: "initialization_message demo_store (JObj 0)"
    by (simp add: initialization_message_def demo_store_def)
  have c: "\<not> initialization_message demo_store (JObj 3)"
    by (simp add: initialization_message_def demo_store_def)
  have d: "member demo_store (JObj 0) ''canvas'' = JObj 1"
    by (simp add: member_def demo_store_def)
  show ?thesis
    using transition_iff_initialization_message [OF a, of Part_000 "JObj 0"]
      transition_iff_initialization_message [OF a, of Part_000 "JObj 3"] a b c d h o
    by simp
qed

text \<open>
  C4. For every message that fails the shape check while the surface is absent and
  the handler registered: the delivery changes nothing but the console, which gains
  one error-level report carrying the received payload; the surface stays absent, the
  handler stays registered, and an Initialization Message delivered next is bound.
\<close>

theorem malformed_message_reported_and_ignored:
  assumes "RUST_OFFSCREEN_CANVAS w = JNull" and "onmessage w = Some s"
    and "\<not> initialization_message (heap w) data"
  shows "deliver w data = w\<lparr>console := console w @ [(Error, msg_invalid_payload, [data])]\<rparr>
     \<and> RUST_OFFSCREEN_CANVAS (deliver w data) = JNull
     \<and> onmessage (deliver w data) = Some s
     \<and> (initialization_message (heap w) later \<longrightarrow>
          RUST_OFFSCREEN_CANVAS (deliver (deliver w data) later) = member (heap w) later ''canvas'')"
proof -
  let ?w' = "w\<lparr>console := console w @ [(Error, msg_invalid_payload, [data])]\<rparr>"
  have step: "deliver w data = ?w'"
    using assms by (simp add: deliver_def handler_when_malformed console_report_def)
  have "RUST_OFFSCREEN_CANVAS (deliver ?w' later) = member (heap w) later ''canvas''"
    if "initialization_message (heap w) later"
    using that assms handler_valid_surface(1) [of ?w' later s]
    by (simp add: deliver_def)
  then show ?thesis
    using step assms by simp
qed

theorem malformed_message_reported_and_ignored_witness:
  "RUST_OFFSCREEN_CANVAS (load Worker_js demo_store 4) = JNull
   \<and> onmessage (load Worker_js demo_store 4) = Some Worker_js
   \<and> \<not> initialization_message (heap (load Worker_js demo_store 4)) (JObj 3)
   \<and> console (deliver (load Worker_js demo_store 4) (JObj 3))
       = [(Debug, msg_loaded, []), (Error, msg_invalid_payload, [JObj 3])]
   \<and> RUST_OFFSCREEN_CANVAS (deliver (load Worker_js demo_store 4) (JObj 3)) = JNull
   \<and> onmessage (deliver (load Worker_js demo_store 4) (JObj 3)) = Some Worker_js
   \<and> initialization_message (heap (load Worker_js demo_store 4)) (JObj 0)
   \<and> RUST_OFFSCREEN_CANVAS (deliver (deliver (load Worker_js demo_store 4) (JObj 3)) (JObj 0))
       = JObj 1"
proof -
  let ?w = "load Worker_js demo_store 4"
  have a: "RUST_OFFSCREEN_CANVAS ?w = JNull"
    and o: "onmessage ?w = Some Worker_js"
    and h: "heap ?w = demo_store"
    and k: "console ?w = [(Debug, msg_loaded, [])]"
    by (simp_all add: load_def)
  have b: "initialization_message (heap ?w) (JObj 0)"
    unfolding h by (simp add: initialization_message_def demo_store_def)
  have c: "\<not> initialization_message (heap ?w) (JObj 3)"
    unfolding h by (simp add: initialization_message_def demo_store_def)
  have d: "member (heap ?w) (JObj 0) ''canvas'' = JObj 1"
    unfolding h by (simp add: member_def demo_store_def)
  note t = malformed_message_reported_and_ignored [OF a o c, of "JObj 0"]
  have t1: "console (deliver ?w (JObj 3)) = console ?w @ [(Error, msg_invalid_payload, [JObj 3])]"
    using t by simp
  have t2: "RUST_OFFSCREEN_CANVAS (deliver ?w (JObj 3)) = JNull"
    and t3: "onmessage (deliver ?w (JObj 3)) = Some Worker_js"
    using t by blast+
  have t4: "RUST_OFFSCREEN_CANVAS (deliver (deliver ?w (JObj 3)) (JObj 0)) = member (heap ?w) (JObj 0) ''canvas''"
    using t b by blast
  show ?thesis
    using a o b c t1 t2 t3 t4 d k by simp
qed

section \<open>Runs of deliveries\<close>

lemma deliver_preserves_surface:
  "RUST_OFFSCREEN_CANVAS w \<noteq> JNull \<Longrightarrow>
     RUST_OFFSCREEN_CANVAS (deliver w data) = RUST_OFFSCREEN_CANVAS w"
  by (simp add: deliver_def handler_when_bound console_report_def split: option.splits)

lemma run_preserves_surface:
  "RUST_OFFSCREEN_CANVAS w \<noteq> JNull \<Longrightarrow>
     RUST_OFFSCREEN_CANVAS (run w ms) = RUST_OFFSCREEN_CANVAS w"
  by (induction ms arbitrary: w) (simp_all add: deliver_preserves_surface)

lemma run_awaiting:
  assumes "RUST_OFFSCREEN_CANVAS w = JNull" and "onmessage w = Some s"
  shows "run w ms =
     (case find (initialization_message (heap w)) ms of
        None \<Rightarrow> w\<lparr>console := console w @ error_reports ms\<rparr>
      | Some d \<Rightarrow>
          handler s
            (w\<lparr>console := console w
                  @ error_reports (takeWhile (\<lambda>m. \<not> initialization_message (heap w) m) ms)\<rparr>) d)"
  using assms
proof (induction ms arbitrary: w)
  case Nil
  then show ?case by (simp add: error_reports_def)
next
  case (Cons m ms)
  show ?case
  proof (cases "initialization_message (heap w) m")
    case True
    have "onmessage (handler s w m) = None"
      using Cons.prems True by (simp add: handler_valid_surface)
    then have "run (handler s w m) ms = handler s w m"
      by (rule run_deregistered)
    then show ?thesis
      using True Cons.prems by (simp add: deliver_def error_reports_def)
  next
    case False
    let ?w' = "console_report Error msg_invalid_payload [m] w"
    have step: "deliver w m = ?w'"
      using Cons.prems False by (simp add: deliver_def handler_when_malformed)
    have "RUST_OFFSCREEN_CANVAS ?w' = JNull" "onmessage ?w' = Some s" "heap ?w' = heap w"
      using Cons.prems by (simp_all add: console_report_def)
    from Cons.IH [OF this(1,2)] this(3) step False show ?thesis
      by (simp add: console_report_def error_reports_def split: option.splits)
  qed
qed

lemma run_load_unbound:
  assumes "find (initialization_message h) ms = None"
  shows "run (load s h n) ms = (load s h n)\<lparr>console := console (load s h n) @ error_reports ms\<rparr>"
  using run_awaiting [of "load s h n" s ms] assms by (simp add: load_def)

lemma run_load_bound:
  assumes "find (initialization_message h) ms = Some d"
  shows "run (load s h n) ms =
     handler s ((load s h n)\<lparr>console := console (load s h n)
        @ error_reports (takeWhile (\<lambda>m. \<not> initialization_message h m) ms)\<rparr>) d"
    and "initialization_message h d"
proof -
  show "run (load s h n) ms =
     handler s ((load s h n)\<lparr>console := console (load s h n)
        @ error_reports (takeWhile (\<lambda>m. \<not> initialization_message h m) ms)\<rparr>) d"
    using run_awaiting [of "load s h n" s ms] assms by (simp add: load_def)
  show "initialization_message h d"
    using assms by (auto simp: find_Some_iff)
qed

lemma run_load_surface:
  "RUST_OFFSCREEN_CANVAS (run (load s h n) ms) =
     (case find (initialization_message h) ms of
        None \<Rightarrow> JNull | Some d \<Rightarrow> member h d ''canvas'')"
proof (cases "find (initialization_message h) ms")
  case None
  then show ?thesis by (simp add: run_load_unbound) (simp add: load_def)
next
  case (Some d)
  from run_load_bound [OF Some] show ?thesis
    using Some by (simp add: handler_valid_surface load_def)
qed

lemma run_load_deregistered:
  "RUST_OFFSCREEN_CANVAS (run (load s h n) ms) \<noteq> JNull \<Longrightarrow> onmessage (run (load s h n) ms) = None"
proof (cases "find (initialization_message h) ms")
  case None
  assume "RUST_OFFSCREEN_CANVAS (run (load s h n) ms) \<noteq> JNull"
  then show ?thesis using None by (simp add: run_load_surface)
next
  case (Some d)
  from run_load_bound [OF Some] show ?thesis
    by (simp add: handler_valid_surface load_def)
qed

lemma run_load_calls:
  "calls (run (load s h n) ms) =
     (if list_ex (initialization_message h) ms then bootstrap_calls else [])"
proof (cases "find (initialization_message h) ms")
  case None
  then have "\<not> list_ex (initialization_message h) ms"
    by (auto simp: find_None_iff list_ex_iff)
  then show ?thesis using None by (simp add: run_load_unbound) (simp add: load_def)
next
  case (Some d)
  then have "list_ex (initialization_message h) ms"
    by (auto simp: find_Some_iff list_ex_iff)
  with run_load_bound [OF Some] show ?thesis
    by (simp add: handler_valid_surface load_def)
qed

text \<open>
  C3, as the code has it. Once the surface is bound in a run of either script, a
  further message changes nothing at all: the delivery is the identity on the state,
  so the bound surface is still the first valid message's canvas, nothing is
  processed and the bootstrap step is not invoked again. No warning is reported,
  because the handler was deregistered when the surface was bound: the console holds
  no warning-level report after any number of later messages. The warning of line 13
  is what the handler function does when it is run while the surface is set; it is
  then its only effect.
\<close>

theorem late_message_is_dropped:
  assumes "RUST_OFFSCREEN_CANVAS (run (load s h n) pre) \<noteq> JNull"
  shows "deliver (run (load s h n) pre) data = run (load s h n) pre
     \<and> run (load s h n) (pre @ data # post) = run (load s h n) pre
     \<and> reports_at Warn (run (load s h n) (pre @ data # post)) = []
     \<and> handler s' (run (load s h n) pre) data
         = (run (load s h n) pre)\<lparr>console := console (run (load s h n) pre)
              @ [(Warn, msg_already_initialized, [])]\<rparr>"
proof -
  let ?w = "run (load s h n) pre"
  have dereg: "onmessage ?w = None"
    using assms by (rule run_load_deregistered)
  have d: "deliver ?w data = ?w"
    using dereg by (simp add: deliver_def)
  have r: "run (load s h n) (pre @ data # post) = ?w"
    using dereg by (simp add: run_append d run_deregistered)
  obtain m where m: "find (initialization_message h) pre = Some m"
    using assms by (cases "find (initialization_message h) pre") (simp_all add: run_load_surface)
  have "console ?w = (Debug, msg_loaded, [])
          # error_reports (takeWhile (\<lambda>m. \<not> initialization_message h m) pre)
          @ [(Debug, msg_received, [member h m ''canvas'']), (Debug, msg_listener_removed, [])]"
    using run_load_bound [OF m] by (simp add: handler_valid_surface load_def)
  then have nowarn: "reports_at Warn ?w = []"
    by (simp add: reports_at_def error_reports_def filter_empty_conv)
  show ?thesis
    using assms d r nowarn by (simp add: handler_when_bound console_report_def)
qed

theorem late_message_is_dropped_witness:
  "RUST_OFFSCREEN_CANVAS (run (load Worker_js demo_store 4) [JObj 3, JObj 0]) \<noteq> JNull
   \<and> deliver (run (load Worker_js demo_store 4) [JObj 3, JObj 0]) (JObj 0)
       = run (load Worker_js demo_store 4) [JObj 3, JObj 0]
   \<and> run (load Worker_js demo_store 4) ([JObj 3, JObj 0] @ JObj 0 # [JObj 3])
       = run (load Worker_js demo_store 4) [JObj 3, JObj 0]
   \<and> reports_at Warn (run (load Worker_js demo_store 4) ([JObj 3, JObj 0] @ JObj 0 # [JObj 3])) = []"
proof -
  have b: "find (initialization_message demo_store) [JObj 3, JObj 0] = Some (JObj 0)"
    by (simp add: initialization_message_def demo_store_def)
  have c: "member demo_store (JObj 0) ''canvas'' = JObj 1"
    by (simp add: member_def demo_store_def)
  have a: "RUST_OFFSCREEN_CANVAS (run (load Worker_js demo_store 4) [JObj 3, JObj 0]) \<noteq> JNull"
    unfolding run_load_surface b by (simp add: c)
  show ?thesis
    using late_message_is_dropped [OF a, of "JObj 0" "[JObj 3]" Worker_js] a by blast
qed

text \<open>
  Two Initialization Messages in sequence to \<^verbatim>\<open>worker.js\<close>: the first binds the canvas
  at address 1; the second, still well-formed in the store it arrives in, leaves the
  console as it was, with no warning-level report on it.
\<close>

theorem late_message_warning_counterexample:
  "RUST_OFFSCREEN_CANVAS (run (load Worker_js demo_store 4) [JObj 0]) = JObj 1
   \<and> initialization_message (heap (run (load Worker_js demo_store 4) [JObj 0])) (JObj 0)
   \<and> reports_at Warn (run (load Worker_js demo_store 4) [JObj 0, JObj 0]) = []
   \<and> console (run (load Worker_js demo_store 4) [JObj 0, JObj 0])
       = console (run (load Worker_js demo_store 4) [JObj 0])"
proof -
  let ?w0 = "load Worker_js demo_store 4"
  have a: "RUST_OFFSCREEN_CANVAS ?w0 = JNull" and o: "onmessage ?w0 = Some Worker_js"
    and h: "heap ?w0 = demo_store" and k: "console ?w0 = [(Debug, msg_loaded, [])]"
    by (simp_all add: load_def)
  have b: "initialization_message (heap ?w0) (JObj 0)"
    unfolding h by (simp add: initialization_message_def demo_store_def)
  have c: "member (heap ?w0) (JObj 0) ''canvas'' = JObj 1"
    unfolding h by (simp add: member_def demo_store_def)
  have d: "deliver ?w0 (JObj 0) = handler Worker_js ?w0 (JObj 0)"
    using o by (simp add: deliver_def)
  have s1: "RUST_OFFSCREEN_CANVAS (deliver ?w0 (JObj 0)) = JObj 1"
    and s2: "onmessage (deliver ?w0 (JObj 0)) = None"
    and s3: "console (deliver ?w0 (JObj 0)) = [(Debug, msg_loaded, []),
          (Debug, msg_received, [JObj 1]), (Debug, msg_listener_removed, [])]"
    unfolding d using handler_valid_surface [OF a b, of Worker_js] c k by simp_all
  have s4: "heap (deliver ?w0 (JObj 0)) = with_override demo_store (JObj 1)"
    unfolding d using worker_js_when_valid [OF a b] c h by simp
  have e: "deliver (deliver ?w0 (JObj 0)) (JObj 0) = deliver ?w0 (JObj 0)"
    using s2 by (simp add: deliver_def)
  have v: "initialization_message (with_override demo_store (JObj 1)) (JObj 0)"
    by (simp add: initialization_message_def with_override_def demo_store_def)
  show ?thesis
    using s1 s3 s4 e v by (simp add: reports_at_def)
qed

text \<open>
  C5. The surface state begins absent when the script is loaded; from any state in
  which it is set, it keeps that value through every further sequence of messages;
  and over any sequence of messages from the loaded script it is the canvas of the
  first Initialization Message of the sequence, absent while there is none.
\<close>

theorem surface_set_at_most_once:
  "RUST_OFFSCREEN_CANVAS (load s h n) = JNull
   \<and> (RUST_OFFSCREEN_CANVAS (run w pre) \<noteq> JNull \<longrightarrow>
        RUST_OFFSCREEN_CANVAS (run w (pre @ post)) = RUST_OFFSCREEN_CANVAS (run w pre))
   \<and> RUST_OFFSCREEN_CANVAS (run (load s h n) ms)
       = (case find (initialization_message h) ms of
            None \<Rightarrow> JNull | Some d \<Rightarrow> member h d ''canvas'')"
proof -
  have "RUST_OFFSCREEN_CANVAS (load s h n) = JNull"
    by (simp add: load_def)
  moreover have "RUST_OFFSCREEN_CANVAS (run w (pre @ post)) = RUST_OFFSCREEN_CANVAS (run w pre)"
    if "RUST_OFFSCREEN_CANVAS (run w pre) \<noteq> JNull"
    using that by (simp add: run_append run_preserves_surface)
  ultimately show ?thesis
    using run_load_surface [of s h n ms] by simp
qed

theorem surface_set_at_most_once_witness:
  "RUST_OFFSCREEN_CANVAS (load Part_000 demo_store 4) = JNull
   \<and> RUST_OFFSCREEN_CANVAS (run (load Part_000 demo_store 4) [JObj 3, JObj 0]) = JObj 1
   \<and> RUST_OFFSCREEN_CANVAS (run (load Part_000 demo_store 4) ([JObj 3, JObj 0] @ [JObj 0, JNull]))
       = JObj 1"
proof -
  have b: "find (initialization_message demo_store) [JObj 3, JObj 0] = Some (JObj 0)"
    by (simp add: initialization_message_def demo_store_def)
  have c: "member demo_store (JObj 0) ''canvas'' = JObj 1"
    by (simp add: member_def demo_store_def)
  note t = surface_set_at_most_once [of Part_000 demo_store 4 "load Part_000 demo_store 4"
      "[JObj 3, JObj 0]" "[JObj 0, JNull]" "[JObj 3, JObj 0]"]
  have t1: "RUST_OFFSCREEN_CANVAS (load Part_000 demo_store 4) = JNull"
    using t by blast
  have t2: "RUST_OFFSCREEN_CANVAS (run (load Part_000 demo_store 4) [JObj 3, JObj 0]) = JObj 1"
    using t unfolding b by (simp add: c)
  have t3: "RUST_OFFSCREEN_CANVAS (run (load Part_000 demo_store 4) ([JObj 3, JObj 0] @ [JObj 0, JNull]))
       = RUST_OFFSCREEN_CANVAS (run (load Part_000 demo_store 4) [JObj 3, JObj 0])"
    using t t2 by simp
  show ?thesis using t1 t2 t3 by simp
qed


text \<open>
  C8. \<^verbatim>\<open>init\<close> issues exactly two calls, in this order: \<^verbatim>\<open>importScripts\<close> of the entry
  script at \<^verbatim>\<open>./app/rose-sample-rs.js\<close>, then \<^verbatim>\<open>wasm_bindgen\<close> with the binary at
  \<^verbatim>\<open>./app/rose-sample-rs_bg.wasm\<close>. The success path of the handler adds exactly these
  two calls, and over any sequence of messages from the loaded script the calls made
  are these two, once, when the sequence holds an Initialization Message, and none
  otherwise.
\<close>

theorem bootstrap_invoked_once:
  "init w = w\<lparr>calls := calls w @ [ImportScripts ''./app/rose-sample-rs.js'',
                                    Wasm_bindgen ''./app/rose-sample-rs_bg.wasm'']\<rparr>
   \<and> (RUST_OFFSCREEN_CANVAS w = JNull \<and> initialization_message (heap w) data \<longrightarrow>
        calls (handler s w data)
          = calls w @ [ImportScripts ''./app/rose-sample-rs.js'',
                       Wasm_bindgen ''./app/rose-sample-rs_bg.wasm''])
   \<and> calls (run (load s h n) ms)
       = (if list_ex (initialization_message h) ms
          then [ImportScripts ''./app/rose-sample-rs.js'',
                Wasm_bindgen ''./app/rose-sample-rs_bg.wasm'']
          else [])"
proof -
  have "init w = w\<lparr>calls := calls w @ bootstrap_calls\<rparr>"
    by (simp add: init_def bootstrap_calls_def)
  moreover have "calls (handler s w data) = calls w @ bootstrap_calls"
    if "RUST_OFFSCREEN_CANVAS w = JNull" "initialization_message (heap w) data"
    using that by (rule handler_valid_surface)
  moreover have "calls (run (load s h n) ms)
       = (if list_ex (initialization_message h) ms then bootstrap_calls else [])"
    by (rule run_load_calls)
  ultimately show ?thesis
    unfolding bootstrap_calls_def by simp
qed

theorem bootstrap_invoked_once_witness:
  "list_ex (initialization_message demo_store) [JObj 3, JObj 0, JObj 0]
   \<and> calls (run (load Worker_js demo_store 4) [JObj 3, JObj 0, JObj 0])
       = [ImportScripts ''./app/rose-sample-rs.js'', Wasm_bindgen ''./app/rose-sample-rs_bg.wasm'']
   \<and> \<not> list_ex (initialization_message demo_store) [JObj 3, JStr ''CANVAS'']
   \<and> calls (run (load Worker_js demo_store 4) [JObj 3, JStr ''CANVAS'']) = []"
proof -
  have a: "list_ex (initialization_message demo_store) [JObj 3, JObj 0, JObj 0]"
    by (simp add: initialization_message_def demo_store_def)
  have b: "\<not> list_ex (initialization_message demo_store) [JObj 3, JStr ''CANVAS'']"
    by (simp add: initialization_message_def demo_store_def)
  note t1 = bootstrap_invoked_once [of "load Worker_js demo_store 4" "JObj 0" Worker_js demo_store 4 "[JObj 3, JObj 0, JObj 0]"]
  note t2 = bootstrap_invoked_once [of "load Worker_js demo_store 4" "JObj 0" Worker_js demo_store 4 "[JObj 3, JStr ''CANVAS'']"]
  have c1: "calls (run (load Worker_js demo_store 4) [JObj 3, JObj 0, JObj 0])
       = [ImportScripts ''./app/rose-sample-rs.js'', Wasm_bindgen ''./app/rose-sample-rs_bg.wasm'']"
    using t1 a by presburger
  have c2: "calls (run (load Worker_js demo_store 4) [JObj 3, JStr ''CANVAS'']) = []"
    using t2 b by presburger
  show ?thesis using a b c1 c2 by blast
qed

section \<open>The two configurations\<close>

lemma call_bound: "call_fn conv native (BoundFn f c) this = call_fn conv native f (JObj c)"
  by (simp add: fun_eq_iff)

lemma with_override_null [simp]: "with_override h JNull = h"
  by (simp add: with_override_def)

text \<open>
  C9. Over every sequence of messages, \<^verbatim>\<open>worker.js\<close> and \<^verbatim>\<open>part_000\<close> loaded in the same
  store end with the same surface, the same registration of the handler, the same
  console (so the same messages were accepted and rejected), the same calls of the
  bootstrap step, no uncaught error in either and the same allocation state. They
  differ in the store alone: \<^verbatim>\<open>part_000\<close> leaves it as it was, \<^verbatim>\<open>worker.js\<close> leaves it
  with the override on the bound surface. Hence a later \<^verbatim>\<open>getContext\<close> on the bound
  surface is the surface's own method in \<^verbatim>\<open>part_000\<close> and the override around that
  method in \<^verbatim>\<open>worker.js\<close>.
\<close>

theorem variants_differ_only_in_override:
  "RUST_OFFSCREEN_CANVAS (run (load Worker_js h n) ms) = RUST_OFFSCREEN_CANVAS (run (load Part_000 h n) ms)
   \<and> (onmessage (run (load Worker_js h n) ms) = None) = (onmessage (run (load Part_000 h n) ms) = None)
   \<and> console (run (load Worker_js h n) ms) = console (run (load Part_000 h n) ms)
   \<and> calls (run (load Worker_js h n) ms) = calls (run (load Part_000 h n) ms)
   \<and> uncaught (run (load Worker_js h n) ms) = uncaught (run (load Part_000 h n) ms)
   \<and> next_addr (run (load Worker_js h n) ms) = next_addr (run (load Part_000 h n) ms)
   \<and> heap (run (load Part_000 h n) ms) = h
   \<and> heap (run (load Worker_js h n) ms)
       = with_override h (RUST_OFFSCREEN_CANVAS (run (load Worker_js h n) ms))
   \<and> (instanceof_OffscreenCanvas h (JObj c) \<and> RUST_OFFSCREEN_CANVAS (run (load Part_000 h n) ms) = JObj c \<longrightarrow>
        (\<exists>f. member h (JObj c) ''getContext'' = JFun f
          \<and> invoke_getContext conv native args (run (load Part_000 h n) ms)
              = Some (call_fn conv native f (JObj c) args (run (load Part_000 h n) ms))
          \<and> invoke_getContext conv native args (run (load Worker_js h n) ms)
              = Some (getContext_override conv (call_fn conv native f (JObj c)) args
                        (run (load Worker_js h n) ms))))"
proof (cases "find (initialization_message h) ms")
  case None
  then show ?thesis
    by (simp add: run_load_unbound) (simp add: load_def)
next
  case (Some d)
  let ?pre = "error_reports (takeWhile (\<lambda>m. \<not> initialization_message h m) ms)"
  let ?a = "run (load Worker_js h n) ms" and ?b = "run (load Part_000 h n) ms"
  note rb = run_load_bound [OF Some]
  have v: "initialization_message h d" by (rule rb(2))
  have a: "?a = onmessage_worker_js ((load Worker_js h n)\<lparr>console := console (load Worker_js h n) @ ?pre\<rparr>) d"
    using rb(1) [of Worker_js n] by simp
  have b: "?b = onmessage_part_000 ((load Part_000 h n)\<lparr>console := console (load Part_000 h n) @ ?pre\<rparr>) d"
    using rb(1) [of Part_000 n] by simp
  have a': "?a = \<lparr>RUST_OFFSCREEN_CANVAS = member h d ''canvas'', onmessage = None,
         heap = with_override h (member h d ''canvas''), next_addr = n,
         console = (Debug, msg_loaded, []) # ?pre @ [(Debug, msg_received, [member h d ''canvas'']),
                               (Debug, msg_listener_removed, [])],
         calls = bootstrap_calls, uncaught = []\<rparr>"
    unfolding a using v by (subst worker_js_when_valid) (simp_all add: load_def)
  have b': "?b = \<lparr>RUST_OFFSCREEN_CANVAS = member h d ''canvas'', onmessage = None,
         heap = h, next_addr = n,
         console = (Debug, msg_loaded, []) # ?pre @ [(Debug, msg_received, [member h d ''canvas'']),
                               (Debug, msg_listener_removed, [])],
         calls = bootstrap_calls, uncaught = []\<rparr>"
    unfolding b using v by (subst part_000_when_valid) (simp_all add: load_def)
  have inv: "\<exists>f. member h (JObj c) ''getContext'' = JFun f
          \<and> invoke_getContext conv native args ?b = Some (call_fn conv native f (JObj c) args ?b)
          \<and> invoke_getContext conv native args ?a
              = Some (getContext_override conv (call_fn conv native f (JObj c)) args ?a)"
    if c: "instanceof_OffscreenCanvas h (JObj c)" "member h d ''canvas'' = JObj c"
  proof -
    from c(1) obtain cob f where cob: "h c = Some cob" "getContext cob = Some f"
      by (auto simp: instanceof_OffscreenCanvas_def split: option.splits)
    have m: "member h (JObj c) ''getContext'' = JFun f"
      using cob by (simp add: member_def)
    have m': "member (with_override h (JObj c)) (JObj c) ''getContext''
                = JFun (GetContextOverride (BoundFn f c))"
      using cob by (simp add: member_def with_override_def)
    have 1: "invoke_getContext conv native args ?b = Some (call_fn conv native f (JObj c) args ?b)"
      unfolding b' by (simp add: invoke_getContext_def c(2) m)
    have 2: "invoke_getContext conv native args ?a
              = Some (getContext_override conv (call_fn conv native f (JObj c)) args ?a)"
      unfolding a' by (simp add: invoke_getContext_def c(2) m' call_bound)
    show ?thesis using m 1 2 by blast
  qed
  have rest: "RUST_OFFSCREEN_CANVAS ?a = RUST_OFFSCREEN_CANVAS ?b
   \<and> (onmessage ?a = None) = (onmessage ?b = None)
   \<and> console ?a = console ?b \<and> calls ?a = calls ?b \<and> uncaught ?a = uncaught ?b
   \<and> next_addr ?a = next_addr ?b \<and> heap ?b = h
   \<and> heap ?a = with_override h (RUST_OFFSCREEN_CANVAS ?a)
   \<and> RUST_OFFSCREEN_CANVAS ?b = member h d ''canvas''"
    unfolding a' b' by simp
  show ?thesis
    using rest inv by presburger
qed


theorem variants_differ_only_in_override_witness:
  "instanceof_OffscreenCanvas demo_store (JObj 1)
   \<and> RUST_OFFSCREEN_CANVAS (run (load Part_000 demo_store 4) [JObj 3, JObj 0, JObj 0]) = JObj 1
   \<and> RUST_OFFSCREEN_CANVAS (run (load Worker_js demo_store 4) [JObj 3, JObj 0, JObj 0]) = JObj 1
   \<and> console (run (load Worker_js demo_store 4) [JObj 3, JObj 0, JObj 0])
       = console (run (load Part_000 demo_store 4) [JObj 3, JObj 0, JObj 0])
   \<and> heap (run (load Part_000 demo_store 4) [JObj 3, JObj 0, JObj 0]) = demo_store
   \<and> heap (run (load Worker_js demo_store 4) [JObj 3, JObj 0, JObj 0])
       = with_override demo_store (JObj 1)
   \<and> invoke_getContext demo_conv demo_native [JStr ''2d''] (run (load Part_000 demo_store 4) [JObj 3, JObj 0, JObj 0])
       = Some (demo_native (JObj 1) [JStr ''2d''] (run (load Part_000 demo_store 4) [JObj 3, JObj 0, JObj 0]))
   \<and> invoke_getContext demo_conv demo_native [JStr ''2d''] (run (load Worker_js demo_store 4) [JObj 3, JObj 0, JObj 0])
       = Some (getContext_override demo_conv (demo_native (JObj 1)) [JStr ''2d'']
                 (run (load Worker_js demo_store 4) [JObj 3, JObj 0, JObj 0]))"
proof -
  let ?ms = "[JObj 3, JObj 0, JObj 0]"
  let ?a = "run (load Worker_js demo_store 4) ?ms" and ?b = "run (load Part_000 demo_store 4) ?ms"
  have i: "instanceof_OffscreenCanvas demo_store (JObj 1)"
    by (simp add: instanceof_OffscreenCanvas_def demo_store_def)
  have f: "find (initialization_message demo_store) ?ms = Some (JObj 0)"
    by (simp add: initialization_message_def demo_store_def)
  have c: "member demo_store (JObj 0) ''canvas'' = JObj 1"
    by (simp add: member_def demo_store_def)
  have g: "member demo_store (JObj 1) ''getContext'' = JFun NativeGetContext"
    by (simp add: member_def demo_store_def)
  have r: "RUST_OFFSCREEN_CANVAS ?b = JObj 1"
    by (simp only: run_load_surface f option.case c)
  note t = variants_differ_only_in_override [of demo_store 4 ?ms 1 demo_conv demo_native "[JStr ''2d'']"]
  have t1: "RUST_OFFSCREEN_CANVAS ?a = JObj 1" using t r by simp
  have t2: "console ?a = console ?b" and t3: "heap ?b = demo_store"
    using t by blast+
  have t4: "heap ?a = with_override demo_store (JObj 1)"
    using t t1 by simp
  from t i r obtain f where f: "member demo_store (JObj 1) ''getContext'' = JFun f"
    "invoke_getContext demo_conv demo_native [JStr ''2d''] ?b
       = Some (call_fn demo_conv demo_native f (JObj 1) [JStr ''2d''] ?b)"
    "invoke_getContext demo_conv demo_native [JStr ''2d''] ?a
       = Some (getContext_override demo_conv (call_fn demo_conv demo_native f (JObj 1)) [JStr ''2d''] ?a)"
    by blast
  have fn: "f = NativeGetContext" using f(1) g by simp
  have cn: "call_fn demo_conv demo_native NativeGetContext (JObj 1) = demo_native (JObj 1)"
    by (simp add: fun_eq_iff)
  show ?thesis
    using i r t1 t2 t3 t4 f(2,3) unfolding fn cn by blast
qed

section \<open>The context-acquisition override\<close>
















end
